theory Spec2Isabelle
  imports Complex_Main "HOL-Library.Multiset"
begin

section \<open>JavaScript numbers\<close>

text \<open>
  The funnel renderer (\<^verbatim>\<open>src/plugins/jqplot.funnelRenderer.js\<close>) computes with
  JavaScript numbers. They are modelled as exact reals extended with the three special
  values of IEEE 754 arithmetic, so that a division by zero is \<open>PInf\<close>, \<open>NInf\<close> or
  \<open>NaN\<close> as in the program and not the \<open>0\<close> of HOL. Rounding and overflow of finite
  values are not modelled, and a zero is always the positive zero.
\<close>

datatype number = Fin real | PInf | NInf | NaN

fun jneg :: "number \<Rightarrow> number" where
  "jneg (Fin a) = Fin (- a)"
| "jneg PInf = NInf"
| "jneg NInf = PInf"
| "jneg NaN = NaN"

fun jadd :: "number \<Rightarrow> number \<Rightarrow> number" where
  "jadd (Fin a) (Fin b) = Fin (a + b)"
| "jadd (Fin a) PInf = PInf"
| "jadd (Fin a) NInf = NInf"
| "jadd PInf (Fin b) = PInf"
| "jadd PInf PInf = PInf"
| "jadd NInf (Fin b) = NInf"
| "jadd NInf NInf = NInf"
| "jadd PInf NInf = NaN"
| "jadd NInf PInf = NaN"
| "jadd NaN y = NaN"
| "jadd x NaN = NaN"

definition jsub :: "number \<Rightarrow> number \<Rightarrow> number" where
  "jsub x y = jadd x (jneg y)"

text \<open>The sign of an infinite product or quotient: positive when \<open>pos\<close> holds.\<close>

definition signed_inf :: "bool \<Rightarrow> number" where
  "signed_inf pos = (if pos then PInf else NInf)"

fun jmul :: "number \<Rightarrow> number \<Rightarrow> number" where
  "jmul (Fin a) (Fin b) = Fin (a * b)"
| "jmul (Fin a) PInf = (if a = 0 then NaN else signed_inf (0 < a))"
| "jmul (Fin a) NInf = (if a = 0 then NaN else signed_inf (a < 0))"
| "jmul PInf (Fin b) = (if b = 0 then NaN else signed_inf (0 < b))"
| "jmul NInf (Fin b) = (if b = 0 then NaN else signed_inf (b < 0))"
| "jmul PInf PInf = PInf"
| "jmul NInf NInf = PInf"
| "jmul PInf NInf = NInf"
| "jmul NInf PInf = NInf"
| "jmul NaN y = NaN"
| "jmul x NaN = NaN"

fun jdiv :: "number \<Rightarrow> number \<Rightarrow> number" where
  "jdiv (Fin a) (Fin b) =
     (if b = 0 then (if a = 0 then NaN else signed_inf (0 < a)) else Fin (a / b))"
| "jdiv (Fin a) PInf = Fin 0"
| "jdiv (Fin a) NInf = Fin 0"
| "jdiv PInf (Fin b) = signed_inf (0 \<le> b)"
| "jdiv NInf (Fin b) = signed_inf (b < 0)"
| "jdiv PInf PInf = NaN"
| "jdiv PInf NInf = NaN"
| "jdiv NInf PInf = NaN"
| "jdiv NInf NInf = NaN"
| "jdiv NaN y = NaN"
| "jdiv x NaN = NaN"

fun jabs :: "number \<Rightarrow> number" where
  "jabs (Fin a) = Fin \<bar>a\<bar>"
| "jabs PInf = PInf"
| "jabs NInf = PInf"
| "jabs NaN = NaN"

text \<open>Comparisons: every comparison with \<open>NaN\<close> is false.\<close>

fun jlt :: "number \<Rightarrow> number \<Rightarrow> bool" where
  "jlt (Fin a) (Fin b) = (a < b)"
| "jlt (Fin a) PInf = True"
| "jlt NInf (Fin b) = True"
| "jlt NInf PInf = True"
| "jlt x y = False"

fun jle :: "number \<Rightarrow> number \<Rightarrow> bool" where
  "jle (Fin a) (Fin b) = (a \<le> b)"
| "jle (Fin a) PInf = True"
| "jle NInf (Fin b) = True"
| "jle NInf PInf = True"
| "jle PInf PInf = True"
| "jle NInf NInf = True"
| "jle x y = False"

definition jgt :: "number \<Rightarrow> number \<Rightarrow> bool" where
  "jgt x y = jlt y x"

definition jge :: "number \<Rightarrow> number \<Rightarrow> bool" where
  "jge x y = jle y x"

text \<open>
  \<^verbatim>\<open>Math.atan\<close> and \<^verbatim>\<open>Math.tan\<close>. The exact tangent has poles where the cosine
  vanishes; the model gives the infinity of the sine's sign there.
\<close>

fun math_atan :: "number \<Rightarrow> number" where
  "math_atan (Fin a) = Fin (arctan a)"
| "math_atan PInf = Fin (pi / 2)"
| "math_atan NInf = Fin (- (pi / 2))"
| "math_atan NaN = NaN"

fun math_tan :: "number \<Rightarrow> number" where
  "math_tan (Fin a) = (if cos a = 0 then signed_inf (0 < sin a) else Fin (tan a))"
| "math_tan x = NaN"

fun is_fin :: "number \<Rightarrow> bool" where
  "is_fin (Fin a) = True"
| "is_fin x = False"


section \<open>JavaScript arrays of numbers\<close>

text \<open>
  \<^verbatim>\<open>new Array(n)\<close> is an array of \<open>n\<close> holes. A hole reads as \<^verbatim>\<open>undefined\<close>, and
  every use of an array element in this file is arithmetic or a comparison, which turn
  \<^verbatim>\<open>undefined\<close> into \<open>NaN\<close>: a hole is modelled as \<open>NaN\<close>. A read past the end is
  \<^verbatim>\<open>undefined\<close> too, and a write past the end extends the array with holes.
\<close>

definition new_Array :: "nat \<Rightarrow> number list" where
  "new_Array n = replicate n NaN"

definition js_get :: "number list \<Rightarrow> nat \<Rightarrow> number" where
  "js_get xs i = (if i < length xs then xs ! i else NaN)"

definition js_set :: "number list \<Rightarrow> nat \<Rightarrow> number \<Rightarrow> number list" where
  "js_set xs i v =
     (if i < length xs then xs[i := v] else xs @ replicate (i - length xs) NaN @ [v])"

section \<open>The series and its options\<close>

type_synonym label = string

text \<open>A data point is the array \<^verbatim>\<open>[label, value]\<close>; the values given by the user are
  finite numbers.\<close>

type_synonym data_point = "label \<times> real"

type_synonym point = "number \<times> number"

text \<open>The four corners a section gets in \<^verbatim>\<open>draw\<close>, in the order they are pushed:
  top left, top right, bottom right, bottom left.\<close>

type_synonym quad = "point \<times> point \<times> point \<times> point"

record padding =
  padding_top :: number
  padding_right :: number
  padding_bottom :: number
  padding_left :: number

text \<open>
  The series object, with the properties the renderer's geometry and highlighting read
  or write. The names with a leading underscore in the source have the prefix \<open>u_\<close>
  here. The drawing properties (\<^verbatim>\<open>fill\<close>, the shadow properties, the colours) only
  reach the canvas calls and are left out. \<open>is_funnel\<close> stands for
  \<^verbatim>\<open>renderer.constructor == $.jqplot.FunnelRenderer\<close>; \<open>u_vertices\<close> is \<open>None\<close>
  until \<^verbatim>\<open>draw\<close> assigns it.
\<close>

record series =
  index :: nat
  is_funnel :: bool
  data :: "data_point list"
  u_unorderedData :: "data_point list"
  gridData :: "(label \<times> number) list"
  padding :: padding
  sectionMargin :: number
  widthRatio :: number
  highlightMouseOver :: bool
  highlightMouseDown :: bool
  u_highlightedPoint :: "nat option"
  u_bases :: "number list"
  u_atot :: number
  u_areas :: "number list"
  u_lengths :: "number list"
  u_angle :: number
  u_length :: number
  u_vertices :: "quad list option"

section \<open>setGridData and makeGridData\<close>

text \<open>The first loop of both functions: the sum \<^verbatim>\<open>sum\<close> of the values (\<open>sum_v\<close> here) and the copy \<^verbatim>\<open>td\<close> of
  the data.\<close>

fun sum_copy :: "data_point list \<Rightarrow> real \<Rightarrow> data_point list \<Rightarrow> real \<times> data_point list" where
  "sum_copy [] sum_v td = (sum_v, td)"
| "sum_copy (d # ds) sum_v td = sum_copy ds (sum_v + snd d) (td @ [(fst d, snd d)])"

text \<open>The second loop: \<^verbatim>\<open>td[i][1] = td[i][1]/sum\<close>.\<close>

definition normalize_td :: "real \<Rightarrow> data_point list \<Rightarrow> (label \<times> number) list" where
  "normalize_td sum_v td = map (\<lambda>d. (fst d, jdiv (Fin (snd d)) (Fin sum_v))) td"

definition setGridData :: "series \<Rightarrow> series" where
  "setGridData s =
     (let (sum_v, td) = sum_copy (data s) 0 [];
          td' = normalize_td sum_v td
      in s\<lparr>u_bases := new_Array (length td' + 1),
            u_lengths := new_Array (length td'),
            gridData := td'\<rparr>)"

text \<open>\<^verbatim>\<open>makeGridData(data, plot)\<close> returns \<^verbatim>\<open>td\<close>; the model returns it with the
  series, whose \<^verbatim>\<open>_bases\<close> and \<^verbatim>\<open>_lengths\<close> it has replaced.\<close>

definition makeGridData :: "data_point list \<Rightarrow> series \<Rightarrow> (label \<times> number) list \<times> series" where
  "makeGridData data_arg s =
     (let (sum_v, td) = sum_copy (data s) 0 [];
          td' = normalize_td sum_v td
      in (td', s\<lparr>u_bases := new_Array (length td' + 1),
                  u_lengths := new_Array (length td')\<rparr>))"

section \<open>init\<close>

text \<open>
  The options object passed to \<^verbatim>\<open>init\<close>, with the properties modelled in the series:
  \<open>None\<close> is a property the user has not given (\<^verbatim>\<open>undefined\<close>, which
  \<^verbatim>\<open>$.extend\<close> skips). The padding is merged field by field, as the deep
  \<^verbatim>\<open>$.extend(true, this, options)\<close> does.
\<close>

record options =
  opt_padding_top :: "number option"
  opt_padding_right :: "number option"
  opt_padding_bottom :: "number option"
  opt_padding_left :: "number option"
  opt_sectionMargin :: "number option"
  opt_widthRatio :: "number option"
  opt_highlightMouseOver :: "bool option"
  opt_highlightMouseDown :: "bool option"

definition merge :: "'a option \<Rightarrow> 'a \<Rightarrow> 'a" where
  "merge opt dflt = (case opt of None \<Rightarrow> dflt | Some v \<Rightarrow> v)"

definition extend_series :: "series \<Rightarrow> options \<Rightarrow> series" where
  "extend_series s opts =
     s\<lparr>padding :=
         \<lparr>padding_top = merge (opt_padding_top opts) (padding_top (padding s)),
          padding_right = merge (opt_padding_right opts) (padding_right (padding s)),
          padding_bottom = merge (opt_padding_bottom opts) (padding_bottom (padding s)),
          padding_left = merge (opt_padding_left opts) (padding_left (padding s))\<rparr>,
       sectionMargin := merge (opt_sectionMargin opts) (sectionMargin s),
       widthRatio := merge (opt_widthRatio opts) (widthRatio s),
       highlightMouseOver := merge (opt_highlightMouseOver opts) (highlightMouseOver s),
       highlightMouseDown := merge (opt_highlightMouseDown opts) (highlightMouseDown s)\<rparr>"

text \<open>
  \<^verbatim>\<open>this.data.sort(function (a, b) { return b[1] - a[1]; })\<close>. The comparator is the
  source's; \<^verbatim>\<open>Array.prototype.sort\<close> is the runtime's and is modelled as a stable
  sort by the comparator (an element goes before the first one it does not compare
  greater than), as ECMAScript specifies it since 2019.
\<close>

definition compare_desc :: "data_point \<Rightarrow> data_point \<Rightarrow> real" where
  "compare_desc a b = snd b - snd a"

fun insert_by :: "('a \<Rightarrow> 'a \<Rightarrow> real) \<Rightarrow> 'a \<Rightarrow> 'a list \<Rightarrow> 'a list" where
  "insert_by cmp x [] = [x]"
| "insert_by cmp x (y # ys) = (if cmp x y \<le> 0 then x # y # ys else y # insert_by cmp x ys)"

definition array_sort :: "('a \<Rightarrow> 'a \<Rightarrow> real) \<Rightarrow> 'a list \<Rightarrow> 'a list" where
  "array_sort cmp xs = foldr (insert_by cmp) xs []"

text \<open>
  \<^verbatim>\<open>init\<close>, called with the series as \<^verbatim>\<open>this\<close>. The statements \<^verbatim>\<open>this._atot;\<close> and
  \<^verbatim>\<open>this._angle;\<close> assign nothing. The highlight colours are computed from the series
  colours by a helper of the host library and are not modelled.
\<close>

definition init :: "options \<Rightarrow> series \<Rightarrow> series" where
  "init opts s =
     (let s1 = s\<lparr>padding := \<lparr>padding_top = Fin 20, padding_right = Fin 20,
                               padding_bottom = Fin 20, padding_left = Fin 20\<rparr>,
                  sectionMargin := Fin 6,
                  highlightMouseOver := True,
                  highlightMouseDown := False,
                  widthRatio := Fin (2 / 10)\<rparr>;
          opts1 = (if opt_highlightMouseDown opts = Some True \<and> opt_highlightMouseOver opts = None
                   then opts\<lparr>opt_highlightMouseOver := Some False\<rparr> else opts);
          s2 = extend_series s1 opts1;
          s3 = s2\<lparr>u_highlightedPoint := None, u_bases := [], u_areas := [], u_lengths := []\<rparr>;
          s4 = s3\<lparr>u_unorderedData := data s3\<rparr>
      in s4\<lparr>data := array_sort compare_desc (data s4)\<rparr>)"

section \<open>postInit\<close>

record plot =
  plot_series :: "series list"
  u_processGetNeighbor :: bool

text \<open>The hook's loop over \<^verbatim>\<open>this.series\<close>; binding the \<^verbatim>\<open>mouseout\<close> handler is an
  effect on the page and is not modelled.\<close>

definition postInit_series :: "series \<Rightarrow> series" where
  "postInit_series s =
     (if is_funnel s
      then (if highlightMouseOver s then s\<lparr>highlightMouseDown := False\<rparr> else s)
      else s)"

definition postInit :: "plot \<Rightarrow> plot" where
  "postInit p = p\<lparr>plot_series := map postInit_series (plot_series p),
                  u_processGetNeighbor := False\<rparr>"

section \<open>draw\<close>

record legendInfo =
  placement :: string
  location :: string
  li_width :: number
  li_height :: number
  xoffset :: number
  yoffset :: number

text \<open>Of the options of \<^verbatim>\<open>draw\<close> only \<^verbatim>\<open>legendInfo\<close> reaches the geometry.\<close>

record draw_options =
  legendInfo :: "legendInfo option"

record canvas =
  canvas_width :: number
  canvas_height :: number

datatype error = TypeError

text \<open>The offsets \<^verbatim>\<open>offx\<close>, \<^verbatim>\<open>offy\<close> and the direction \<^verbatim>\<open>trans\<close> due to the legend.\<close>

definition legend_offsets :: "draw_options \<Rightarrow> number \<times> number \<times> int" where
  "legend_offsets opts =
     (case legendInfo opts of
        None \<Rightarrow> (Fin 0, Fin 0, 1)
      | Some li \<Rightarrow>
          if placement li = ''inside'' then
            (if location li = ''nw'' then (jadd (li_width li) (xoffset li), Fin 0, 1)
             else if location li = ''w'' then (jadd (li_width li) (xoffset li), Fin 0, 1)
             else if location li = ''sw'' then (jadd (li_width li) (xoffset li), Fin 0, 1)
             else if location li = ''ne'' then (jadd (li_width li) (xoffset li), Fin 0, - 1)
             else if location li = ''e'' then (jadd (li_width li) (xoffset li), Fin 0, - 1)
             else if location li = ''se'' then (jadd (li_width li) (xoffset li), Fin 0, - 1)
             else if location li = ''n'' then (Fin 0, jadd (li_height li) (yoffset li), 1)
             else if location li = ''s'' then (Fin 0, jadd (li_height li) (yoffset li), - 1)
             else (Fin 0, Fin 0, 1))
          else (Fin 0, Fin 0, 1))"

definition tolerance :: number where
  "tolerance = Fin (1 / 10000)"

text \<open>
  The \<^verbatim>\<open>while\<close> loop that solves one section's length. Its state is the two arrays it
  writes and the locals \<^verbatim>\<open>guess\<close>, \<^verbatim>\<open>err\<close> and \<^verbatim>\<open>count\<close> (\<open>cnt\<close> here).
\<close>

function while_length ::
  "number list \<Rightarrow> number \<Rightarrow> nat \<Rightarrow> number list \<times> number list \<times> number \<times> number \<times> nat
     \<Rightarrow> number list \<times> number list \<times> number \<times> number \<times> nat" where
  "while_length areas angle i (bases, lengths, guess, err, cnt) =
     (if jgt err (jmul (js_get lengths i) tolerance) \<and> cnt < 100 then
        (let lengths1 = js_set lengths i
               (jdiv (js_get areas i)
                  (jsub (js_get bases i) (jmul (js_get lengths i) (math_tan angle))));
             err1 = jabs (jsub (js_get lengths1 i) guess);
             bases1 = js_set bases (i + 1)
               (jsub (js_get bases i) (jmul (jmul (Fin 2) (js_get lengths1 i)) (math_tan angle)));
             guess1 = js_get lengths1 i
         in while_length areas angle i (bases1, lengths1, guess1, err1, cnt + 1))
      else (bases, lengths, guess, err, cnt))"
  by pat_completeness auto
termination
  by (relation "measure (\<lambda>(areas, angle, i, bases, lengths, guess, err, cnt). 100 - cnt)") auto

declare while_length.simps [simp del]

text \<open>The \<^verbatim>\<open>for\<close> loop over \<^verbatim>\<open>this._areas\<close>.\<close>

function solve_lengths ::
  "number list \<Rightarrow> number \<Rightarrow> nat \<Rightarrow> number list \<times> number list \<times> number
     \<Rightarrow> number list \<times> number list \<times> number" where
  "solve_lengths areas angle i (bases, lengths, lsum) =
     (if i < length areas then
        (let guess = jdiv (js_get areas i) (js_get bases i);
             err = Fin 999999;
             lengths1 = js_set lengths i guess;
             cnt = 0;
             (bases2, lengths2, guess2, err2, cnt2) =
               while_length areas angle i (bases, lengths1, guess, err, cnt)
         in solve_lengths areas angle (i + 1) (bases2, lengths2, jadd lsum (js_get lengths2 i)))
      else (bases, lengths, lsum))"
  by pat_completeness auto
termination
  by (relation "measure (\<lambda>(areas, angle, i, st). length areas - i)") auto

declare solve_lengths.simps [simp del]

text \<open>The equations of the left and right sides: the point of the side at height \<open>l\<close>
  below its top corner.\<close>

definition findleft :: "point \<Rightarrow> point \<Rightarrow> number \<Rightarrow> point" where
  "findleft p0 p2 l =
     (let m = jdiv (jsub (snd p0) (snd p2)) (jsub (fst p0) (fst p2));
          b = jsub (snd p0) (jmul m (fst p0));
          y = jadd l (snd p0)
      in (jdiv (jsub y b) m, y))"

definition findright :: "point \<Rightarrow> point \<Rightarrow> number \<Rightarrow> point" where
  "findright p1 p3 l =
     (let m = jdiv (jsub (snd p1) (snd p3)) (jsub (fst p1) (fst p3));
          b = jsub (snd p1) (jmul m (fst p1));
          y = jadd l (snd p1)
      in (jdiv (jsub y b) m, y))"

text \<open>
  The two chains of tests that set \<^verbatim>\<open>adj\<close> before the top and before the bottom corners
  of section \<open>i\<close> of \<open>n\<close>; \<open>adj\<close> is the value the variable has when the chain starts.
  They run for \<open>i < n\<close> only, where \<open>n - 1\<close> on the naturals is \<^verbatim>\<open>gd.length - 1\<close>.
\<close>

definition top_adj :: "number \<Rightarrow> nat \<Rightarrow> nat \<Rightarrow> number \<Rightarrow> number" where
  "top_adj sm n i adj =
     (let adj0 = (if i = 0 then Fin 0 else adj)
      in if i = 1 then jdiv sm (Fin 3)
         else if i > 0 \<and> i < n - 1 then jdiv sm (Fin 2)
         else if i = n - 1 then jdiv (jmul (Fin 2) sm) (Fin 3)
         else adj0)"

definition bottom_adj :: "number \<Rightarrow> nat \<Rightarrow> nat \<Rightarrow> number \<Rightarrow> number" where
  "bottom_adj sm n i adj =
     (if i = 0 then jdiv (jmul (Fin (- 2)) sm) (Fin 3)
      else if i > 0 \<and> i < n - 1 then jdiv (jneg sm) (Fin 2)
      else if i = n - 1 then Fin 0
      else adj)"

text \<open>The loop that pushes the four corners of every section; \<open>vs\<close> is
  \<^verbatim>\<open>this._vertices\<close> up to index \<open>i\<close>.\<close>

function section_vertices ::
  "point \<Rightarrow> point \<Rightarrow> point \<Rightarrow> point \<Rightarrow> number \<Rightarrow> number list \<Rightarrow> nat \<Rightarrow> nat
     \<Rightarrow> number \<times> number \<times> quad list \<Rightarrow> number \<times> number \<times> quad list" where
  "section_vertices p0 p1 p2 p3 sm lengths n i (h, adj, vs) =
     (if i < n then
        (let adj1 = top_adj sm n i adj;
             v0 = findleft p0 p2 (jadd h adj1);
             v1 = findright p1 p3 (jadd h adj1);
             h1 = jadd h (js_get lengths i);
             adj2 = bottom_adj sm n i adj1;
             v2 = findright p1 p3 (jadd h1 adj2);
             v3 = findleft p0 p2 (jadd h1 adj2)
         in section_vertices p0 p1 p2 p3 sm lengths n (i + 1) (h1, adj2, vs @ [(v0, v1, v2, v3)]))
      else (h, adj, vs))"
  by pat_completeness auto
termination
  by (relation "measure (\<lambda>(p0, p1, p2, p3, sm, lengths, n, i, st). n - i)") auto

declare section_vertices.simps [simp del]

text \<open>
  The geometry of \<^verbatim>\<open>draw\<close>, called with the series as \<^verbatim>\<open>this\<close>: the offsets
  \<^verbatim>\<open>loff\<close>, \<^verbatim>\<open>toff\<close>, \<^verbatim>\<open>roff\<close> and \<^verbatim>\<open>boff\<close>, then the bases, lengths and areas,
  and the vertices. The calls of \<^verbatim>\<open>drawSection\<close> that
  follow paint the canvas and change nothing of the series.
\<close>

definition draw_offsets :: "draw_options \<Rightarrow> series \<Rightarrow> number \<times> number \<times> number \<times> number" where
  "draw_offsets opts s =
     (let (offx, offy, trans) = legend_offsets opts;
          loff = (if trans = 1 then jadd (padding_left (padding s)) offx
                  else padding_left (padding s));
          toff = (if trans = 1 then jadd (padding_top (padding s)) offy
                  else padding_top (padding s));
          roff = (if trans = - 1 then jadd (padding_right (padding s)) offx
                  else padding_right (padding s));
          boff = (if trans = - 1 then jadd (padding_bottom (padding s)) offy
                  else padding_bottom (padding s))
      in (loff, toff, roff, boff))"

text \<open>The four corners of the entire trapezoid: \<open>blast\<close> is the last base,
  \<^verbatim>\<open>this._bases[this._bases.length-1]\<close>, and \<open>ltot\<close> the height \<^verbatim>\<open>this._length\<close>.\<close>

definition envelope :: "number \<Rightarrow> number \<Rightarrow> number list \<Rightarrow> number \<Rightarrow> point \<times> point \<times> point \<times> point" where
  "envelope loff toff bases ltot =
     (let blast = js_get bases (length bases - 1);
          p0 = (loff, toff);
          p1 = (jadd loff (js_get bases 0), toff);
          p2 = (jadd loff (jdiv (jsub (js_get bases 0) blast) (Fin 2)), jadd toff ltot);
          p3 = (jadd (fst p2) blast, snd p2)
      in (p0, p1, p2, p3))"

definition draw_geometry :: "canvas \<Rightarrow> (label \<times> number) list \<Rightarrow> draw_options \<Rightarrow> series \<Rightarrow> series" where
  "draw_geometry cv gd opts s =
     (let (loff, toff, roff, boff) = draw_offsets opts s;
          cw = canvas_width cv;
          ch = canvas_height cv;
          bases0 = js_set (u_bases s) 0 (jsub (jsub cw loff) roff);
          ltot = jsub (jsub ch toff) boff;
          hend = jmul (js_get bases0 0) (widthRatio s);
          atot = jmul (jdiv ltot (Fin 2))
                   (jadd (js_get bases0 0) (jmul (js_get bases0 0) (widthRatio s)));
          angle = math_atan (jdiv (jdiv (jsub (js_get bases0 0) hend) (Fin 2)) ltot);
          areas = u_areas s @ map (\<lambda>g. jmul (snd g) atot) gd;
          (bases1, lengths1, lsum) = solve_lengths areas angle 0 (bases0, u_lengths s, Fin 0);
          (p0, p1, p2, p3) = envelope loff toff bases1 ltot;
          (h, adj, vs) =
            section_vertices p0 p1 p2 p3 (sectionMargin s) lengths1 (length gd) 0 (Fin 0, Fin 0, [])
      in s\<lparr>u_bases := bases1, u_length := ltot, u_atot := atot, u_angle := angle,
            u_areas := areas, u_lengths := lengths1, u_vertices := Some vs\<rparr>)"

text \<open>\<^verbatim>\<open>draw\<close> reads \<^verbatim>\<open>options.legendInfo\<close> of its argument unguarded: without an
  options object (\<open>None\<close>) that is a \<^verbatim>\<open>TypeError\<close>.\<close>

definition draw :: "canvas \<Rightarrow> (label \<times> number) list \<Rightarrow> draw_options option \<Rightarrow> series \<Rightarrow> error + series" where
  "draw cv gd options s =
     (case options of
        None \<Rightarrow> Inl TypeError
      | Some opts \<Rightarrow> Inr (draw_geometry cv gd opts s))"

section \<open>checkIntersection\<close>

text \<open>The edge through \<open>p1\<close> and \<open>p2\<close>: its point at height \<open>l\<close> below \<open>p1\<close>.\<close>

definition findedge :: "number \<Rightarrow> point \<Rightarrow> point \<Rightarrow> point" where
  "findedge l p1 p2 =
     (let m = jdiv (jsub (snd p1) (snd p2)) (jsub (fst p1) (fst p2));
          b = jsub (snd p1) (jmul m (fst p1));
          y = jadd l (snd p1)
      in (jdiv (jsub y b) m, y))"

text \<open>The loop over the sections, from index \<open>i\<close> on: the index of the first section
  that passes the test; \<open>lex_p\<close> and \<open>rex_p\<close> are the source's \<^verbatim>\<open>lex\<close> and \<^verbatim>\<open>rex\<close>.\<close>

fun check_sections :: "number \<Rightarrow> number \<Rightarrow> point \<Rightarrow> point \<Rightarrow> quad list \<Rightarrow> nat \<Rightarrow> nat option" where
  "check_sections x y lex_p rex_p [] i = None"
| "check_sections x y lex_p rex_p ((c0, c1, c2, c3) # v) i =
     (if jge y (snd c0) \<and> jle y (snd c3) \<and> jge x (fst lex_p) \<and> jle x (fst rex_p)
      then Some i
      else check_sections x y lex_p rex_p v (i + 1))"

definition data_at :: "series \<Rightarrow> nat \<Rightarrow> data_point option" where
  "data_at s i = (if i < length (data s) then Some (data s ! i) else None)"

text \<open>
  \<^verbatim>\<open>checkIntersection(gridpos, plot)\<close>: \<open>Inr None\<close> is the \<^verbatim>\<open>null\<close> it returns when no
  section matches, \<open>Inr (Some (sidx, i, d))\<close> the array \<^verbatim>\<open>[s.index, i, s.data[i]]\<close>.
  Without a first series, without vertices or with an empty array of vertices the
  property reads fail with a \<^verbatim>\<open>TypeError\<close>.
\<close>

definition checkIntersection ::
  "number \<times> number \<Rightarrow> plot \<Rightarrow> error + (nat \<times> nat \<times> data_point option) option" where
  "checkIntersection gridpos p =
     (case plot_series p of
        [] \<Rightarrow> Inl TypeError
      | s # rest \<Rightarrow>
          (case u_vertices s of
             None \<Rightarrow> Inl TypeError
           | Some v \<Rightarrow>
               if v = [] then Inl TypeError
               else
                 (let x = fst gridpos;
                      y = snd gridpos;
                      (f0, f1, f2, f3) = v ! 0;
                      (l0, l1, l2, l3) = v ! (length v - 1);
                      lex_p = findedge y f0 l3;
                      rex_p = findedge y f1 l2
                  in case check_sections x y lex_p rex_p v 0 of
                       None \<Rightarrow> Inr None
                     | Some i \<Rightarrow> Inr (Some (index s, i, data_at s i)))))"

section \<open>The iteration as the specification words it\<close>




section \<open>The loop of one section on its own numbers\<close>




section \<open>The height above a section\<close>

text \<open>The height \<^verbatim>\<open>h\<close> that the loop over the sections has added up when it reaches
  section \<open>k\<close>: the lengths of the sections above.\<close>

primrec height_above :: "number list \<Rightarrow> nat \<Rightarrow> number" where
  "height_above ls 0 = Fin 0"
| "height_above ls (Suc k) = jadd (height_above ls k) (js_get ls k)"

section \<open>The centroid of a section\<close>


section \<open>Example inputs\<close>

text \<open>A series object before \<^verbatim>\<open>init\<close> has run: the host library has stored the data
  and the index, every property of the renderer is still unset.\<close>

definition new_series :: "data_point list \<Rightarrow> series" where
  "new_series d =
     \<lparr>index = 0, is_funnel = True, data = d, u_unorderedData = [], gridData = [],
      padding = \<lparr>padding_top = NaN, padding_right = NaN, padding_bottom = NaN,
                  padding_left = NaN\<rparr>,
      sectionMargin = NaN, widthRatio = NaN, highlightMouseOver = False,
      highlightMouseDown = False, u_highlightedPoint = None, u_bases = [], u_atot = NaN,
      u_areas = [], u_lengths = [], u_angle = NaN, u_length = NaN, u_vertices = None\<rparr>"

text \<open>The empty options object \<^verbatim>\<open>{}\<close>.\<close>

definition no_options :: options where
  "no_options =
     \<lparr>opt_padding_top = None, opt_padding_right = None, opt_padding_bottom = None,
      opt_padding_left = None, opt_sectionMargin = None, opt_widthRatio = None,
      opt_highlightMouseOver = None, opt_highlightMouseDown = None\<rparr>"

text \<open>A canvas of 140 by 140 pixels, and the options of a \<^verbatim>\<open>draw\<close> without a legend.\<close>

definition small_canvas :: canvas where
  "small_canvas = \<lparr>canvas_width = Fin 140, canvas_height = Fin 140\<rparr>"



text \<open>A canvas whose plot height is 300 pixels, the options that make the walls of the
  funnel vertical, and three data points of equal value.\<close>

definition long_canvas :: canvas where
  "long_canvas = \<lparr>canvas_width = Fin 140, canvas_height = Fin 340\<rparr>"

definition straight :: options where
  "straight = no_options\<lparr>opt_widthRatio := Some (Fin 1)\<rparr>"

definition three_points :: "data_point list" where
  "three_points = [(''A'', 1), (''B'', 1), (''C'', 1)]"





definition no_legend :: draw_options where
  "no_legend = \<lparr>legendInfo = None\<rparr>"

text \<open>The first drawing of a series: \<^verbatim>\<open>init\<close>, \<^verbatim>\<open>setGridData\<close>, and \<^verbatim>\<open>draw\<close> with the
  grid data and an options object without legend. \<open>first_draw\<close> is the series that
  \<^verbatim>\<open>draw\<close> leaves; that call does not fail.\<close>

definition prepare :: "options \<Rightarrow> data_point list \<Rightarrow> series" where
  "prepare opts d = setGridData (init opts (new_series d))"

definition first_draw :: "canvas \<Rightarrow> options \<Rightarrow> data_point list \<Rightarrow> series" where
  "first_draw cv opts d =
     (case draw cv (gridData (prepare opts d)) (Some no_legend) (prepare opts d) of
        Inr s' \<Rightarrow> s'
      | Inl e \<Rightarrow> prepare opts d)"

section \<open>Properties\<close>

subsection \<open>Numbers and arrays\<close>

lemma math_tan_atan: "math_tan (math_atan (Fin x)) = Fin x"
  by (simp add: tan_arctan)

lemma jadd_zero_right [simp]: "jadd x (Fin 0) = x"
  by (cases x) auto

lemma jadd_zero_left [simp]: "jadd (Fin 0) x = x"
  by (cases x) auto


subsection \<open>Normalisation\<close>

lemma sum_copy_eq:
  "sum_copy ds sum_v td = (sum_v + sum_list (map snd ds), td @ ds)"
  by (induction ds arbitrary: sum_v td) (simp_all add: algebra_simps)

lemma gridData_setGridData:
  "gridData (setGridData s) =
     map (\<lambda>d. (fst d, jdiv (Fin (snd d)) (Fin (sum_list (map snd (data s)))))) (data s)"
  by (simp add: setGridData_def sum_copy_eq normalize_td_def)

text \<open>
  C9: \<^verbatim>\<open>makeGridData(data, plot)\<close> returns the array that \<^verbatim>\<open>setGridData(plot)\<close>
  stores in \<^verbatim>\<open>gridData\<close>, which is the data of the series with every value divided by
  the sum of the values; it does not depend on its \<^verbatim>\<open>data\<close> argument, and the two
  functions leave the series in the same state but for \<^verbatim>\<open>gridData\<close>. The plot argument
  is read by neither function and is not a parameter of the model.
\<close>

theorem makeGridData_setGridData:
  "fst (makeGridData d s) = gridData (setGridData s) \<and>
   fst (makeGridData d s) =
     map (\<lambda>p. (fst p, jdiv (Fin (snd p)) (Fin (sum_list (map snd (data s)))))) (data s) \<and>
   makeGridData d s = makeGridData d' s \<and>
   (snd (makeGridData d s))\<lparr>gridData := fst (makeGridData d s)\<rparr> = setGridData s"
  by (simp add: makeGridData_def setGridData_def Let_def sum_copy_eq normalize_td_def
      split: prod.splits)

text \<open>
  C3, as the specification states it: a total of zero or less makes the normalisation
  fail with an error and produce no geometry. The source has no such check: with two
  values of zero \<^verbatim>\<open>setGridData\<close> divides by the zero total and stores \<open>NaN\<close> weights.
\<close>

theorem setGridData_zero_total_counterexample:
  "gridData (setGridData (init no_options (new_series [(''A'', 0), (''B'', 0)]))) =
     [(''A'', NaN), (''B'', NaN)]"
  by (simp add: gridData_setGridData init_def extend_series_def Let_def array_sort_def
      compare_desc_def new_series_def)

text \<open>
  C3, amended: \<^verbatim>\<open>setGridData\<close> never fails. Whatever the total, it stores one weight
  per data point, the value divided by the total as JavaScript divides; when the total
  is zero every weight is \<open>NaN\<close> or an infinity.
\<close>

theorem setGridData_never_fails:
  "gridData (setGridData s) =
     map (\<lambda>d. (fst d, jdiv (Fin (snd d)) (Fin (sum_list (map snd (data s)))))) (data s) \<and>
   (sum_list (map snd (data s)) = 0 \<longrightarrow>
      (\<forall>g \<in> set (gridData (setGridData s)). \<not> is_fin (snd g)))"
  by (auto simp: gridData_setGridData signed_inf_def)

theorem setGridData_never_fails_witness:
  "gridData (setGridData (new_series [(''A'', 1), (''B'', - 1)])) =
     [(''A'', PInf), (''B'', NInf)]"
  using setGridData_never_fails [of "new_series [(''A'', 1), (''B'', - 1)]"]
  by (simp add: new_series_def signed_inf_def)

subsection \<open>Sorting in init\<close>

lemma insert_by_mset: "mset (insert_by cmp x xs) = add_mset x (mset xs)"
  by (induction xs) auto

lemma insert_by_set: "set (insert_by cmp x xs) = insert x (set xs)"
  by (induction xs) auto

lemma insert_by_sorted:
  "sorted_wrt (\<lambda>a b. snd b \<le> snd a) xs \<Longrightarrow>
   sorted_wrt (\<lambda>a b. snd b \<le> snd a) (insert_by compare_desc x xs)"
  by (induction xs) (auto simp: compare_desc_def insert_by_set)

lemma array_sort_mset: "mset (array_sort cmp xs) = mset xs"
  by (induction xs) (auto simp: array_sort_def insert_by_mset)

lemma array_sort_sorted: "sorted_wrt (\<lambda>a b. snd b \<le> snd a) (array_sort compare_desc xs)"
  by (induction xs) (auto simp: array_sort_def insert_by_sorted)

text \<open>
  C4: after \<^verbatim>\<open>init\<close> the data of the series is the data it was given, reordered so
  that the values descend, and \<^verbatim>\<open>_unorderedData\<close> holds the data in the order given.
  The data \<open>[(A,10), (B,30), (C,20)]\<close> becomes \<open>[(B,30), (C,20), (A,10)]\<close>.
\<close>

theorem init_sorts_data:
  "sorted_wrt (\<lambda>a b. snd b \<le> snd a) (data (init opts s)) \<and>
   mset (data (init opts s)) = mset (data s) \<and>
   u_unorderedData (init opts s) = data s \<and>
   data (init opts (s\<lparr>data := [(''A'', 10), (''B'', 30), (''C'', 20)]\<rparr>)) =
     [(''B'', 30), (''C'', 20), (''A'', 10)]"
  by (simp add: init_def extend_series_def Let_def array_sort_mset array_sort_sorted)
     (simp add: array_sort_def compare_desc_def)

subsection \<open>The solver of the lengths\<close>

lemma jadd_NaN_right [simp]: "jadd x NaN = NaN" by (cases x) auto
lemma jmul_NaN_right [simp]: "jmul x NaN = NaN" by (cases x) auto
lemma jdiv_NaN_right [simp]: "jdiv x NaN = NaN" by (cases x) auto
lemma jsub_NaN_right [simp]: "jsub x NaN = NaN" by (simp add: jsub_def)
lemma jsub_NaN_left [simp]: "jsub NaN x = NaN" by (simp add: jsub_def)










subsection \<open>Evaluation of the examples\<close>

lemmas number_eval = jsub_def jgt_def jge_def signed_inf_def tolerance_def js_get_def js_set_def
  new_Array_def tan_arctan

lemmas prepare_eval = prepare_def setGridData_def init_def extend_series_def merge_def
  no_options_def new_series_def array_sort_def compare_desc_def sum_copy_eq normalize_td_def
  new_Array_def Let_def

lemmas draw_eval = first_draw_def draw_def draw_geometry_def draw_offsets_def envelope_def
  no_legend_def legend_offsets_def
  section_vertices.simps top_adj_def bottom_adj_def findleft_def findright_def Let_def

lemma prepare_one:
  "prepare no_options [(''A'', 1)] =
     \<lparr>index = 0, is_funnel = True, data = [(''A'', 1)], u_unorderedData = [(''A'', 1)],
      gridData = [(''A'', Fin 1)],
      padding = \<lparr>padding_top = Fin 20, padding_right = Fin 20, padding_bottom = Fin 20,
                  padding_left = Fin 20\<rparr>,
      sectionMargin = Fin 6, widthRatio = Fin (1 / 5), highlightMouseOver = True,
      highlightMouseDown = False, u_highlightedPoint = None, u_bases = [NaN, NaN],
      u_atot = NaN, u_areas = [], u_lengths = [NaN], u_angle = NaN, u_length = NaN,
      u_vertices = None\<rparr>"
  by (simp add: prepare_eval)

lemma solve_one:
  "solve_lengths [Fin 6000] (Fin (arctan (2 / 5))) 0 ([Fin 100, NaN], [NaN], Fin 0) =
     ([Fin 100, Fin (13951331908 / 697147165)], [Fin (13940846148 / 139429433)],
      Fin (13940846148 / 139429433))"
  by (simp add: solve_lengths.simps while_length.simps number_eval Let_def)

text \<open>The first drawing of a single data point on the small canvas, with the default
  options: the plot area is 100 by 100 pixels at the offset (20, 20).\<close>

lemma draw_one:
  "first_draw small_canvas no_options [(''A'', 1)] =
     \<lparr>index = 0, is_funnel = True, data = [(''A'', 1)], u_unorderedData = [(''A'', 1)],
      gridData = [(''A'', Fin 1)],
      padding = \<lparr>padding_top = Fin 20, padding_right = Fin 20, padding_bottom = Fin 20,
                  padding_left = Fin 20\<rparr>,
      sectionMargin = Fin 6, widthRatio = Fin (1 / 5), highlightMouseOver = True,
      highlightMouseDown = False, u_highlightedPoint = None,
      u_bases = [Fin 100, Fin (13951331908 / 697147165)], u_atot = Fin 6000,
      u_areas = [Fin 6000], u_lengths = [Fin (13940846148 / 139429433)],
      u_angle = Fin (arctan (2 / 5)), u_length = Fin 100,
      u_vertices =
        Some [((Fin (376455274796 / 17428679125), Fin 24),
               (Fin (2063559802704 / 17428679125), Fin 24),
               (Fin (198322434687330864216 / 2430070848337686125),
                Fin (16171717076 / 139429433)),
               (Fin (141887484079945193284 / 2430070848337686125),
                Fin (16171717076 / 139429433)))]\<rparr>"
  by (simp add: draw_eval prepare_one small_canvas_def number_eval solve_one)


subsection \<open>Highlighting\<close>

text \<open>
  C10: after \<^verbatim>\<open>postInit\<close> no funnel series of the plot has \<^verbatim>\<open>highlightMouseOver\<close>
  and \<^verbatim>\<open>highlightMouseDown\<close> both true. \<^verbatim>\<open>init\<close> turns \<^verbatim>\<open>highlightMouseOver\<close> off
  when the options ask for \<^verbatim>\<open>highlightMouseDown\<close> and do not give
  \<^verbatim>\<open>highlightMouseOver\<close>; the hook turns \<^verbatim>\<open>highlightMouseDown\<close> off on every funnel
  series whose \<^verbatim>\<open>highlightMouseOver\<close> is true; and neither \<^verbatim>\<open>setGridData\<close> nor the
  geometry of \<^verbatim>\<open>draw\<close> writes the two properties afterwards.
\<close>

theorem postInit_highlight_exclusive:
  "(\<forall>s \<in> set (plot_series (postInit p)).
      is_funnel s \<longrightarrow> \<not> (highlightMouseOver s \<and> highlightMouseDown s)) \<and>
   (opt_highlightMouseDown opts = Some True \<and> opt_highlightMouseOver opts = None \<longrightarrow>
      \<not> highlightMouseOver (init opts s0)) \<and>
   (\<forall>s \<in> set (plot_series p). is_funnel s \<and> highlightMouseOver s \<longrightarrow>
      \<not> highlightMouseDown (postInit_series s)) \<and>
   highlightMouseOver (setGridData s1) = highlightMouseOver s1 \<and>
   highlightMouseDown (setGridData s1) = highlightMouseDown s1 \<and>
   (draw cv gd dopts s1 = Inr s2 \<longrightarrow>
      highlightMouseOver s2 = highlightMouseOver s1 \<and>
      highlightMouseDown s2 = highlightMouseDown s1)"
  by (auto simp: postInit_def postInit_series_def init_def extend_series_def merge_def Let_def
      setGridData_def draw_def draw_geometry_def split: prod.splits option.splits)

theorem postInit_highlight_exclusive_witness:
  "plot_series (postInit \<lparr>plot_series =
       [(new_series [])\<lparr>highlightMouseOver := True, highlightMouseDown := True\<rparr>],
       u_processGetNeighbor = True\<rparr>) =
     [(new_series [])\<lparr>highlightMouseOver := True, highlightMouseDown := False\<rparr>] \<and>
   \<not> highlightMouseOver (init (no_options\<lparr>opt_highlightMouseDown := Some True\<rparr>) (new_series [])) \<and>
   draw small_canvas (gridData (prepare no_options [(''A'', 1)])) (Some no_legend)
       (prepare no_options [(''A'', 1)]) =
     Inr (first_draw small_canvas no_options [(''A'', 1)]) \<and>
   highlightMouseOver (first_draw small_canvas no_options [(''A'', 1)]) \<and>
   \<not> highlightMouseDown (first_draw small_canvas no_options [(''A'', 1)])"
proof -
  have dr: "draw small_canvas (gridData (prepare no_options [(''A'', 1)])) (Some no_legend)
        (prepare no_options [(''A'', 1)]) =
      Inr (first_draw small_canvas no_options [(''A'', 1)])"
    by (simp add: first_draw_def draw_def)
  have pr: "highlightMouseOver (prepare no_options [(''A'', 1)])"
    "\<not> highlightMouseDown (prepare no_options [(''A'', 1)])"
    by (simp_all add: prepare_one)
  have "opt_highlightMouseDown (no_options\<lparr>opt_highlightMouseDown := Some True\<rparr>) = Some True"
    "opt_highlightMouseOver (no_options\<lparr>opt_highlightMouseDown := Some True\<rparr>) = None"
    by (simp_all add: no_options_def)
  with dr pr postInit_highlight_exclusive [where
      p = "\<lparr>plot_series = [(new_series [])\<lparr>highlightMouseOver := True, highlightMouseDown := True\<rparr>],
        u_processGetNeighbor = True\<rparr>"
      and opts = "no_options\<lparr>opt_highlightMouseDown := Some True\<rparr>" and ?s0.0 = "new_series []"
      and cv = small_canvas and gd = "gridData (prepare no_options [(''A'', 1)])"
      and dopts = "Some no_legend" and ?s1.0 = "prepare no_options [(''A'', 1)]"
      and ?s2.0 = "first_draw small_canvas no_options [(''A'', 1)]"]
  show ?thesis
    by (simp add: postInit_def postInit_series_def new_series_def)
qed

subsection \<open>The fixed-point iteration\<close>




subsection \<open>The vertices\<close>

lemma top_adj_indep: "i < n \<Longrightarrow> top_adj sm n i adj = top_adj sm n i (Fin 0)"
  by (auto simp: top_adj_def Let_def)

lemma bottom_adj_indep: "i < n \<Longrightarrow> bottom_adj sm n i adj = bottom_adj sm n i (Fin 0)"
  by (auto simp: bottom_adj_def)

text \<open>The corners of section \<open>k\<close> of \<open>n\<close>, from the heights above it.\<close>

lemma section_vertices_nth:
  "section_vertices p0 p1 p2 p3 sm ls n i (h, adj, vs) = (h', adj', vs') \<Longrightarrow>
   h = height_above ls i \<Longrightarrow> length vs = i \<Longrightarrow> i \<le> n \<Longrightarrow>
   length vs' = n \<and> (\<forall>k < i. vs' ! k = vs ! k) \<and>
   (\<forall>k. i \<le> k \<and> k < n \<longrightarrow> vs' ! k =
      (findleft p0 p2 (jadd (height_above ls k) (top_adj sm n k (Fin 0))),
       findright p1 p3 (jadd (height_above ls k) (top_adj sm n k (Fin 0))),
       findright p1 p3 (jadd (height_above ls (Suc k)) (bottom_adj sm n k (Fin 0))),
       findleft p0 p2 (jadd (height_above ls (Suc k)) (bottom_adj sm n k (Fin 0)))))"
proof (induction p0 p1 p2 p3 sm ls n i "(h, adj, vs)" arbitrary: h adj vs
    rule: section_vertices.induct)
  case (1 p0 p1 p2 p3 sm lengths n i h adj vs)
  note h = "1.prems"(2)
  show ?case
  proof (cases "i < n")
    case False
    then show ?thesis
      using "1.prems" by (subst (asm) section_vertices.simps) auto
  next
    case True
    define adj1 where "adj1 = top_adj sm n i adj"
    define adj2 where "adj2 = bottom_adj sm n i adj1"
    define q where "q = (findleft p0 p2 (jadd (height_above lengths i) adj1),
       findright p1 p3 (jadd (height_above lengths i) adj1),
       findright p1 p3 (jadd (height_above lengths (Suc i)) adj2),
       findleft p0 p2 (jadd (height_above lengths (Suc i)) adj2))"
    have step: "section_vertices p0 p1 p2 p3 sm lengths n (i + 1)
        (height_above lengths (i + 1), adj2, vs @ [q]) = (h', adj', vs')"
      using "1.prems"(1) True h
      by (subst (asm) section_vertices.simps) (simp add: Let_def adj1_def adj2_def q_def)
    have ih: "length vs' = n \<and> (\<forall>k < i + 1. vs' ! k = (vs @ [q]) ! k) \<and>
      (\<forall>k. i + 1 \<le> k \<and> k < n \<longrightarrow> vs' ! k =
        (findleft p0 p2 (jadd (height_above lengths k) (top_adj sm n k (Fin 0))),
         findright p1 p3 (jadd (height_above lengths k) (top_adj sm n k (Fin 0))),
         findright p1 p3 (jadd (height_above lengths (Suc k)) (bottom_adj sm n k (Fin 0))),
         findleft p0 p2 (jadd (height_above lengths (Suc k)) (bottom_adj sm n k (Fin 0)))))"
      using "1.hyps" [OF True refl refl refl refl refl refl refl] step True
        "1.prems"(3) h
      by (simp add: adj1_def adj2_def q_def)
    have qi: "vs' ! i = q"
      using ih "1.prems"(3) by (simp add: nth_append)
    have q': "q = (findleft p0 p2 (jadd (height_above lengths i) (top_adj sm n i (Fin 0))),
         findright p1 p3 (jadd (height_above lengths i) (top_adj sm n i (Fin 0))),
         findright p1 p3 (jadd (height_above lengths (Suc i)) (bottom_adj sm n i (Fin 0))),
         findleft p0 p2 (jadd (height_above lengths (Suc i)) (bottom_adj sm n i (Fin 0))))"
      using top_adj_indep [OF True, of sm adj] bottom_adj_indep [OF True, of sm adj1]
      by (simp add: q_def adj1_def adj2_def)
    show ?thesis
    proof (intro conjI allI impI)
      show "length vs' = n" using ih by simp
    next
      fix k assume "k < i"
      then show "vs' ! k = vs ! k"
        using ih "1.prems"(3) by (simp add: nth_append)
    next
      fix k assume k: "i \<le> k \<and> k < n"
      show "vs' ! k =
        (findleft p0 p2 (jadd (height_above lengths k) (top_adj sm n k (Fin 0))),
         findright p1 p3 (jadd (height_above lengths k) (top_adj sm n k (Fin 0))),
         findright p1 p3 (jadd (height_above lengths (Suc k)) (bottom_adj sm n k (Fin 0))),
         findleft p0 p2 (jadd (height_above lengths (Suc k)) (bottom_adj sm n k (Fin 0))))"
      proof (cases "k = i")
        case True
        then show ?thesis using qi q' by simp
      next
        case False
        then show ?thesis using ih k by simp
      qed
    qed
  qed
qed

lemma draw_geometry_vertices:
  assumes "s' = draw_geometry cv gd opts s"
    and "draw_offsets opts s = (loff, toff, roff, boff)"
    and "envelope loff toff (u_bases s') (u_length s') = (p0, p1, p2, p3)"
  shows "\<exists>h adj V. u_vertices s' = Some V \<and>
     section_vertices p0 p1 p2 p3 (sectionMargin s) (u_lengths s') (length gd) 0
       (Fin 0, Fin 0, []) = (h, adj, V)"
  using assms by (auto simp: draw_geometry_def Let_def split: prod.splits)

lemma draw_vertices_nth:
  assumes "s' = draw_geometry cv gd opts s"
    and "draw_offsets opts s = (loff, toff, roff, boff)"
    and "envelope loff toff (u_bases s') (u_length s') = (p0, p1, p2, p3)"
    and "k < length gd"
  shows "length (the (u_vertices s')) = length gd \<and> the (u_vertices s') ! k =
      (findleft p0 p2 (jadd (height_above (u_lengths s') k)
         (top_adj (sectionMargin s) (length gd) k (Fin 0))),
       findright p1 p3 (jadd (height_above (u_lengths s') k)
         (top_adj (sectionMargin s) (length gd) k (Fin 0))),
       findright p1 p3 (jadd (height_above (u_lengths s') (Suc k))
         (bottom_adj (sectionMargin s) (length gd) k (Fin 0))),
       findleft p0 p2 (jadd (height_above (u_lengths s') (Suc k))
         (bottom_adj (sectionMargin s) (length gd) k (Fin 0))))"
proof -
  obtain h adj V where V: "u_vertices s' = Some V"
    and sv: "section_vertices p0 p1 p2 p3 (sectionMargin s) (u_lengths s') (length gd) 0
       (Fin 0, Fin 0, []) = (h, adj, V)"
    using draw_geometry_vertices [OF assms(1-3)] by blast
  show ?thesis
    using section_vertices_nth [OF sv] assms(4) V by simp
qed

lemma snd_findleft: "snd (findleft p0 p2 l) = jadd l (snd p0)"
  by (simp add: findleft_def Let_def)

lemma snd_findright: "snd (findright p1 p3 l) = jadd l (snd p1)"
  by (simp add: findright_def Let_def)

lemma snd_envelope:
  "envelope loff toff bases ltot = (p0, p1, p2, p3) \<Longrightarrow> snd p0 = toff \<and> snd p1 = toff"
  by (auto simp: envelope_def Let_def)

lemma prepare_three:
  "prepare no_options three_points =
     \<lparr>index = 0, is_funnel = True, data = [(''A'', 1), (''B'', 1), (''C'', 1)],
      u_unorderedData = [(''A'', 1), (''B'', 1), (''C'', 1)],
      gridData = [(''A'', Fin (1 / 3)), (''B'', Fin (1 / 3)), (''C'', Fin (1 / 3))],
      padding = \<lparr>padding_top = Fin 20, padding_right = Fin 20, padding_bottom = Fin 20,
                  padding_left = Fin 20\<rparr>,
      sectionMargin = Fin 6, widthRatio = Fin (1 / 5), highlightMouseOver = True,
      highlightMouseDown = False, u_highlightedPoint = None, u_bases = [NaN, NaN, NaN, NaN],
      u_atot = NaN, u_areas = [], u_lengths = [NaN, NaN, NaN], u_angle = NaN, u_length = NaN,
      u_vertices = None\<rparr>"
  by (simp add: prepare_eval three_points_def)

text \<open>The first drawing of three equal data points with vertical walls: the tangent is
  zero and every length is exact after one update. The sides are vertical lines, whose
  slope is infinite, and every abscissa is \<open>NaN\<close>.\<close>

lemma draw_straight:
  "first_draw long_canvas straight three_points =
     \<lparr>index = 0, is_funnel = True, data = [(''A'', 1), (''B'', 1), (''C'', 1)],
      u_unorderedData = [(''A'', 1), (''B'', 1), (''C'', 1)],
      gridData = [(''A'', Fin (1 / 3)), (''B'', Fin (1 / 3)), (''C'', Fin (1 / 3))],
      padding = \<lparr>padding_top = Fin 20, padding_right = Fin 20, padding_bottom = Fin 20,
                  padding_left = Fin 20\<rparr>,
      sectionMargin = Fin 6, widthRatio = Fin 1, highlightMouseOver = True,
      highlightMouseDown = False, u_highlightedPoint = None,
      u_bases = [Fin 100, Fin 100, Fin 100, Fin 100], u_atot = Fin 30000,
      u_areas = [Fin 10000, Fin 10000, Fin 10000], u_lengths = [Fin 100, Fin 100, Fin 100],
      u_angle = Fin 0, u_length = Fin 300,
      u_vertices =
        Some [((NaN, Fin 20), (NaN, Fin 20), (NaN, Fin 116), (NaN, Fin 116)),
              ((NaN, Fin 122), (NaN, Fin 122), (NaN, Fin 217), (NaN, Fin 217)),
              ((NaN, Fin 224), (NaN, Fin 224), (NaN, Fin 320), (NaN, Fin 320))]\<rparr>"
  by (simp add: draw_eval prepare_def setGridData_def init_def extend_series_def merge_def
      no_options_def new_series_def array_sort_def compare_desc_def sum_copy_eq normalize_td_def
      straight_def three_points_def long_canvas_def number_eval solve_lengths.simps
      while_length.simps)

lemma offsets_no_legend:
  "draw_offsets no_legend s =
     (padding_left (padding s), padding_top (padding s), padding_right (padding s),
      padding_bottom (padding s))"
  by (simp add: draw_offsets_def no_legend_def legend_offsets_def)

subsection \<open>The margins between the sections\<close>

text \<open>
  C5, as the specification states it: with two sections or more the margin is split
  one third against two thirds at the boundary after the first section and, mirrored,
  at the boundary before the last one. With three sections of 100 pixels below the top
  offset 20 and the default margin 6, the boundary before the last section is at 220:
  section 1 ends at 217, half a margin above it, and section 2 starts at 224, two
  thirds of a margin below it. The same insets hold with the default width ratio:
  there the bottom of section 1 and the top of section 2 are 3 above and 4 below the
  height that the first two sections add up to.
\<close>

theorem draw_margins_counterexample:
  "u_vertices (first_draw long_canvas straight three_points) =
     Some [((NaN, Fin 20), (NaN, Fin 20), (NaN, Fin 116), (NaN, Fin 116)),
           ((NaN, Fin 122), (NaN, Fin 122), (NaN, Fin 217), (NaN, Fin 217)),
           ((NaN, Fin 224), (NaN, Fin 224), (NaN, Fin 320), (NaN, Fin 320))] \<and>
   snd (snd (snd (snd (the (u_vertices (first_draw small_canvas no_options three_points)) ! 1)))) =
     jadd (jadd (height_above (u_lengths (first_draw small_canvas no_options three_points)) 2)
       (Fin (- 3))) (Fin 20) \<and>
   snd (fst (the (u_vertices (first_draw small_canvas no_options three_points)) ! 2)) =
     jadd (jadd (height_above (u_lengths (first_draw small_canvas no_options three_points)) 2)
       (Fin 4)) (Fin 20)"
proof -
  define s where "s = prepare no_options three_points"
  define d where "d = first_draw small_canvas no_options three_points"
  have d: "d = draw_geometry small_canvas (gridData s) no_legend s"
    by (simp add: d_def s_def first_draw_def draw_def)
  have off: "draw_offsets no_legend s = (Fin 20, Fin 20, Fin 20, Fin 20)"
    by (simp add: offsets_no_legend s_def prepare_three)
  obtain p0 p1 p2 p3 where
    env: "envelope (Fin 20) (Fin 20) (u_bases d) (u_length d) = (p0, p1, p2, p3)"
    by (metis prod_cases4)
  have len: "length (gridData s) = 3" and sm: "sectionMargin s = Fin 6"
    by (simp_all add: s_def prepare_three)
  have "snd (snd (snd (snd (the (u_vertices d) ! 1)))) =
      jadd (jadd (height_above (u_lengths d) 2) (Fin (- 3))) (Fin 20)"
    using draw_vertices_nth [OF d off env, of 1] snd_envelope [OF env] len sm
    by (simp add: snd_findleft bottom_adj_def eval_nat_numeral)
  moreover have "snd (fst (the (u_vertices d) ! 2)) =
      jadd (jadd (height_above (u_lengths d) 2) (Fin 4)) (Fin 20)"
    using draw_vertices_nth [OF d off env, of 2] snd_envelope [OF env] len sm
    by (simp add: snd_findleft top_adj_def eval_nat_numeral)
  ultimately show ?thesis
    by (simp add: draw_straight d_def)
qed

text \<open>
  C5, amended: with \<open>n \<ge> 2\<close> sections and the margin \<open>m\<close>, the two top corners of
  section \<open>i\<close> lie at the top offset plus the height of the sections above plus an inset,
  and its two bottom corners at the top offset plus the height down to its end plus an
  inset. The top inset is 0 for section 0, \<open>m/3\<close> for section 1, \<open>m/2\<close> for a section
  between section 1 and the last, and \<open>2m/3\<close> for the last section when it is not
  section 1. The bottom inset is \<open>-2m/3\<close> for section 0, \<open>-m/2\<close> for every section
  between the first and the last, and 0 for the last. So the margin is split two thirds
  above and one third below the boundary after section 0, in halves at the boundaries
  between, and, with three sections or more, a half above and two thirds below the
  boundary before the last section.
\<close>

theorem draw_margins:
  assumes "draw cv gd (Some opts) s = Inr s'"
    and "draw_offsets opts s = (loff, toff, roff, boff)"
    and "sectionMargin s = Fin m" and "n = length gd" and "2 \<le> n" and "i < n"
    and "the (u_vertices s') ! i = (v0, v1, v2, v3)"
    and "h = height_above (u_lengths s')"
  shows "snd v1 = snd v0 \<and> snd v2 = snd v3 \<and>
     snd v0 = jadd (jadd (h i)
        (Fin (if i = 0 then 0 else if i = 1 then m / 3
              else if i < n - 1 then m / 2 else 2 * m / 3))) toff \<and>
     snd v3 = jadd (jadd (h (i + 1))
        (Fin (if i = 0 then - 2 * m / 3 else if i < n - 1 then - m / 2 else 0))) toff"
proof -
  have d: "s' = draw_geometry cv gd opts s"
    using assms(1) by (simp add: draw_def)
  obtain p0 p1 p2 p3 where env: "envelope loff toff (u_bases s') (u_length s') = (p0, p1, p2, p3)"
    by (metis prod_cases4)
  have top: "top_adj (sectionMargin s) (length gd) i (Fin 0) =
      Fin (if i = 0 then 0 else if i = 1 then m / 3 else if i < n - 1 then m / 2 else 2 * m / 3)"
    using assms(3-6) by (auto simp: top_adj_def Let_def)
  have bot: "bottom_adj (sectionMargin s) (length gd) i (Fin 0) =
      Fin (if i = 0 then - 2 * m / 3 else if i < n - 1 then - m / 2 else 0)"
    using assms(3-6) by (auto simp: bottom_adj_def)
  have "(v0, v1, v2, v3) =
      (findleft p0 p2 (jadd (h i) (top_adj (sectionMargin s) (length gd) i (Fin 0))),
       findright p1 p3 (jadd (h i) (top_adj (sectionMargin s) (length gd) i (Fin 0))),
       findright p1 p3 (jadd (h (Suc i)) (bottom_adj (sectionMargin s) (length gd) i (Fin 0))),
       findleft p0 p2 (jadd (h (Suc i)) (bottom_adj (sectionMargin s) (length gd) i (Fin 0))))"
    using draw_vertices_nth [OF d assms(2) env, of i] assms(4,6,7,8) by simp
  then show ?thesis
    using snd_envelope [OF env]
    by (simp add: snd_findleft snd_findright top bot split del: if_split)
qed

theorem draw_margins_witness:
  "(2::nat) \<le> 3 \<and>
   the (u_vertices (first_draw long_canvas straight three_points)) ! 2 =
     ((NaN, Fin 224), (NaN, Fin 224), (NaN, Fin 320), (NaN, Fin 320)) \<and>
   Fin 224 = jadd (jadd (height_above [Fin 100, Fin 100, Fin 100] 2) (Fin (2 * 6 / 3))) (Fin 20) \<and>
   Fin 320 = jadd (jadd (height_above [Fin 100, Fin 100, Fin 100] 3) (Fin 0)) (Fin 20)"
proof -
  define s where "s = prepare straight three_points"
  define d where "d = first_draw long_canvas straight three_points"
  have d: "draw long_canvas (gridData s) (Some no_legend) s = Inr d"
    by (simp add: d_def s_def first_draw_def draw_def)
  have s: "sectionMargin s = Fin 6" "length (gridData s) = 3" "padding_top (padding s) = Fin 20"
    by (simp_all add: s_def prepare_eval straight_def three_points_def)
  have off: "draw_offsets no_legend s =
      (padding_left (padding s), Fin 20, padding_right (padding s), padding_bottom (padding s))"
    by (simp add: offsets_no_legend s)
  have v: "the (u_vertices d) ! 2 =
      ((NaN, Fin 224), (NaN, Fin 224), (NaN, Fin 320), (NaN, Fin 320))"
    by (simp add: d_def draw_straight)
  have n: "(3::nat) = length (gridData s)" "(2::nat) \<le> 3" "(2::nat) < 3"
    by (simp_all add: s)
  from draw_margins [OF d off s(1) n v refl] v show ?thesis
    by (simp add: d_def draw_straight)
qed

subsection \<open>The single section\<close>

text \<open>
  C6, on the single data point drawn with the default options on the small canvas,
  where the entire trapezoid has its top corners at the height 20 and its bottom
  corners at the height 120: the only section starts at the height 24 and ends at about
  115.98, four pixels inside the top and the bottom of the trapezoid. The test
  \<^verbatim>\<open>i == gd.length - 1\<close> of the chain for the top sets \<^verbatim>\<open>adj\<close> to two thirds of the
  margin after \<^verbatim>\<open>i == 0\<close> has set it to zero, and the chain for the bottom takes
  \<^verbatim>\<open>i == 0\<close> first: whatever the margin, a single section gets two thirds of it as
  the inset of its top and, negated, of its bottom.
\<close>

theorem single_section_inset:
  "u_vertices (first_draw small_canvas no_options [(''A'', 1)]) =
     Some [((Fin (376455274796 / 17428679125), Fin 24),
            (Fin (2063559802704 / 17428679125), Fin 24),
            (Fin (198322434687330864216 / 2430070848337686125), Fin (16171717076 / 139429433)),
            (Fin (141887484079945193284 / 2430070848337686125), Fin (16171717076 / 139429433)))] \<and>
   envelope (Fin 20) (Fin 20) (u_bases (first_draw small_canvas no_options [(''A'', 1)]))
       (u_length (first_draw small_canvas no_options [(''A'', 1)])) =
     ((Fin 20, Fin 20), (Fin 120, Fin 20),
      (Fin (41824635596 / 697147165), Fin 120), (Fin (55775967504 / 697147165), Fin 120)) \<and>
   top_adj (Fin 6) 1 0 (Fin 0) = Fin 4 \<and> bottom_adj (Fin 6) 1 0 (Fin 4) = Fin (- 4) \<and>
   top_adj sm 1 0 adj = jdiv (jmul (Fin 2) sm) (Fin 3) \<and>
   bottom_adj sm 1 0 adj' = jdiv (jmul (Fin (- 2)) sm) (Fin 3)"
  by (simp add: draw_one envelope_def number_eval Let_def top_adj_def bottom_adj_def)

subsection \<open>The hit test\<close>

text \<open>
  C2, on the same drawing: the pointer at (27, 30) lies between the top 24 and the
  bottom of the section, and between the two sides of the trapezoid at the height 30,
  which are at about 23.9994 and 116.0006. \<^verbatim>\<open>checkIntersection\<close> returns \<^verbatim>\<open>null\<close>:
  \<^verbatim>\<open>findedge\<close> adds the ordinate of its first point, here 24, to the height it is
  given, and the pointer's \<^verbatim>\<open>y\<close> is passed as that height, so that the sides are
  taken at the height 54, where the left one is at about 33.598. In general the point
  that \<^verbatim>\<open>findedge\<close> returns for the pointer's \<^verbatim>\<open>y\<close> lies at the height \<^verbatim>\<open>y\<close> plus the
  ordinate of the first point.
\<close>

theorem hit_test_offset:
  "checkIntersection (Fin 27, Fin 30)
     \<lparr>plot_series = [first_draw small_canvas no_options [(''A'', 1)]],
      u_processGetNeighbor = False\<rparr> = Inr None \<and>
   (case the (u_vertices (first_draw small_canvas no_options [(''A'', 1)])) ! 0 of
      (c0, c1, c2, c3) \<Rightarrow>
        jge (Fin 30) (snd c0) \<and> jle (Fin 30) (snd c3) \<and>
        findedge (jsub (Fin 30) (snd c0)) c0 c3 = (Fin (83655562648 / 3485735825), Fin 30) \<and>
        findedge (jsub (Fin 30) (snd c1)) c1 c2 = (Fin (404347452852 / 3485735825), Fin 30) \<and>
        jge (Fin 27) (Fin (83655562648 / 3485735825)) \<and>
        jle (Fin 27) (Fin (404347452852 / 3485735825)) \<and>
        findedge (Fin 30) c0 c3 = (Fin (585567967016 / 17428679125), Fin 54)) \<and>
   snd (findedge y p1 p2) = jadd y (snd p1)"
  by (simp add: draw_one checkIntersection_def findedge_def number_eval Let_def)














subsection \<open>The sum of the lengths\<close>






subsection \<open>The centroid round trip\<close>















end
